theory Spec2Isabelle
  imports Complex_Main "HOL-Library.Word"
begin

section \<open>Data model\<close>

text \<open>
  A Python \<open>str\<close> is a sequence of code points; slices such as \<open>text[:500]\<close> count code
  points, so a string is a list of natural numbers. String literals of the source are
  written with \<open>lit\<close>.
\<close>

type_synonym pystr = "nat list"

definition lit :: "string \<Rightarrow> pystr" where
  "lit s = map of_char s"

type_synonym bytes = "8 word list"

text \<open>
  JSON values as Python holds them after \<open>json.loads\<close> / \<open>response.json()\<close>. A dict is
  an association list in insertion order (keys distinct).
\<close>

datatype json =
    JNull
  | JBool bool
  | JNum rat
  | JStr pystr
  | JArr "json list"
  | JObj "(pystr \<times> json) list"

text \<open>Every exception the two programs can raise.\<close>

datatype error =
    S3ClientError
  | NoSuchKey
  | PgConnectionError
  | PgQueryError
  | UniqueViolation
  | StringDataRightTruncation
  | NatsError
  | HttpTransportError
  | JSONDecodeError
  | AttributeError
  | RedisConnectionError

text \<open>
  A row of the table \<open>documents\<close> (\<open>main.py\<close>, lines 64-72); the primary key \<open>id\<close> is
  the key of the map \<open>rows\<close> below.
\<close>

record doc_row =
  row_filename :: pystr
  row_upload_date :: nat
  row_processed :: bool
  row_text_preview :: "pystr option"

text \<open>A point of the Qdrant collection \<open>documents\<close> (\<open>processor.py\<close>, lines 59-67).\<close>

record payload =
  pl_text :: pystr
  pl_filename :: pystr
  pl_doc_id :: pystr

record point =
  pt_id :: pystr
  pt_vector :: "rat list"
  pt_payload :: payload

text \<open>The message on \<open>document.process\<close>: \<open>{"id": ..., "filename": ...}\<close>.\<close>

record event =
  ev_id :: pystr
  ev_filename :: pystr

text \<open>The body of the search request (\<open>main.py\<close>, lines 117-121).\<close>

record search_request =
  sr_vector :: "rat list"
  sr_limit :: nat
  sr_with_payload :: bool

text \<open>
  What an \<open>httpx\<close> call can give back. Only a transport failure raises; a response with
  an error status is returned like any other, and neither program inspects the status.
\<close>

datatype put_reply = PutApplied | PutRejected | PutUnreachable

datatype search_reply = SearchUnreachable | NonJsonBody | JsonBody json

text \<open>
  The replies a NATS callback can send for a delivered message (\<open>msg.ack()\<close>,
  \<open>msg.nak()\<close>, \<open>msg.term()\<close>).
\<close>

datatype msg_reply = Ack | Nak | Term

text \<open>An uploaded file: \<open>file.filename\<close> and the result of \<open>file.read()\<close>.\<close>

record upload_file =
  uf_filename :: pystr
  uf_body :: bytes

subsection \<open>The stores\<close>

text \<open>
  The state both programs work on: the S3 bucket, the table \<open>documents\<close>, the Qdrant
  collection, the Redis keys (value and expiry time), the messages published to NATS, the
  replies sent for delivered messages, the search requests Qdrant received, the lines the
  two programs print themselves, and the number of open PostgreSQL connections of the
  processor.
\<close>

record world =
  blobs :: "pystr \<rightharpoonup> bytes"
  rows :: "pystr \<rightharpoonup> doc_row"
  points :: "point list"
  cache :: "pystr \<rightharpoonup> pystr \<times> nat"
  published :: "(pystr \<times> event) list"
  msg_replies :: "msg_reply list"
  vi_log :: "search_request list"
  stdout :: "pystr list"
  pg_open :: nat

text \<open>
  What the surroundings do during one call: which service operations succeed, how Qdrant
  answers, the value \<open>uuid.uuid4()\<close> returns and the current time.
\<close>

record env =
  s3_put_ok :: bool
  s3_get_ok :: bool
  s3_list_ok :: bool
  pg_connect_ok :: bool
  pg_query_ok :: bool
  nats_connected :: bool
  nats_publish_ok :: bool
  redis_get_ok :: bool
  redis_setex_ok :: bool
  redis_ping_ok :: bool
  vi_put :: put_reply
  vi_search :: "search_request \<Rightarrow> search_reply"
  vi_health_ok :: bool
  uuid4 :: pystr
  clock :: nat

text \<open>
  The library functions the programs call: \<open>bytes.decode('utf-8', errors='ignore')\<close>,
  \<open>model.encode(text).tolist()\<close>, \<open>json.dumps\<close> and \<open>json.loads\<close>.
\<close>

record lib =
  decode_utf8_ignore :: "bytes \<Rightarrow> pystr"
  model_encode :: "pystr \<Rightarrow> rat list"
  json_dumps :: "json \<Rightarrow> pystr"
  json_loads :: "pystr \<Rightarrow> json option"

section \<open>Service operations\<close>

subsection \<open>S3\<close>

definition s3_put_object :: "env \<Rightarrow> pystr \<Rightarrow> bytes \<Rightarrow> world \<Rightarrow> (error + unit) \<times> world" where
  "s3_put_object E key body w =
     (if s3_put_ok E then (Inr (), w\<lparr>blobs := (blobs w)(key \<mapsto> body)\<rparr>)
      else (Inl S3ClientError, w))"

definition s3_get_object :: "env \<Rightarrow> pystr \<Rightarrow> world \<Rightarrow> error + bytes" where
  "s3_get_object E key w =
     (if \<not> s3_get_ok E then Inl S3ClientError
      else case blobs w key of None \<Rightarrow> Inl NoSuchKey | Some content \<Rightarrow> Inr content)"

subsection \<open>PostgreSQL\<close>

text \<open>
  \<open>filename VARCHAR(255)\<close>: a longer value is an error, unless the excess characters
  are all spaces, in which case it is cut to 255 characters.
\<close>

definition varchar255 :: "pystr \<Rightarrow> error + pystr" where
  "varchar255 s =
     (if length s \<le> 255 then Inr s
      else if list_all (\<lambda>c. c = 32) (drop 255 s) then Inr (take 255 s)
      else Inl StringDataRightTruncation)"

text \<open>
  \<open>INSERT INTO documents (id, filename) VALUES ($1, $2)\<close> on a connection of the pool:
  \<open>upload_date\<close> and \<open>processed\<close> take their defaults, \<open>text_preview\<close> is NULL, and an
  existing \<open>id\<close> violates the primary key.
\<close>

definition insert_document :: "env \<Rightarrow> pystr \<Rightarrow> pystr \<Rightarrow> world \<Rightarrow> (error + unit) \<times> world" where
  "insert_document E doc_id filename w =
     (if \<not> pg_connect_ok E then (Inl PgConnectionError, w)
      else if \<not> pg_query_ok E then (Inl PgQueryError, w)
      else if rows w doc_id \<noteq> None then (Inl UniqueViolation, w)
      else case varchar255 filename of
             Inl e \<Rightarrow> (Inl e, w)
           | Inr fn \<Rightarrow>
               (Inr (), w\<lparr>rows := (rows w)(doc_id \<mapsto>
                  \<lparr>row_filename = fn, row_upload_date = clock E,
                   row_processed = False, row_text_preview = None\<rparr>)\<rparr>))"

text \<open>
  \<open>UPDATE documents SET processed = true, text_preview = $1 WHERE id = $2\<close>: no row
  with that id is no error, and nothing changes.
\<close>

definition update_processed :: "env \<Rightarrow> pystr \<Rightarrow> pystr \<Rightarrow> world \<Rightarrow> (error + unit) \<times> world" where
  "update_processed E preview doc_id w =
     (if \<not> pg_query_ok E then (Inl PgQueryError, w)
      else case rows w doc_id of
             None \<Rightarrow> (Inr (), w)
           | Some r \<Rightarrow>
               (Inr (), w\<lparr>rows := (rows w)(doc_id \<mapsto>
                  r\<lparr>row_processed := True, row_text_preview := Some preview\<rparr>)\<rparr>))"

subsection \<open>NATS\<close>

definition nats_publish :: "env \<Rightarrow> pystr \<Rightarrow> event \<Rightarrow> world \<Rightarrow> (error + unit) \<times> world" where
  "nats_publish E subject ev w =
     (if nats_publish_ok E then (Inr (), w\<lparr>published := published w @ [(subject, ev)]\<rparr>)
      else (Inl NatsError, w))"

section \<open>The Producer: \<open>upload_document\<close>\<close>

definition upload_blob_key :: "pystr \<Rightarrow> pystr" where
  "upload_blob_key doc_id = lit ''documents/'' @ doc_id @ lit ''.pdf''"

definition upload_document :: "env \<Rightarrow> upload_file \<Rightarrow> world \<Rightarrow> (error + json) \<times> world" where
  "upload_document E file w =
     (let doc_id = uuid4 E in
      case s3_put_object E (upload_blob_key doc_id) (uf_body file) w of
        (Inl e, w1) \<Rightarrow> (Inl e, w1)
      | (Inr _, w1) \<Rightarrow>
          (case insert_document E doc_id (uf_filename file) w1 of
             (Inl e, w2) \<Rightarrow> (Inl e, w2)
           | (Inr _, w2) \<Rightarrow>
               (case nats_publish E (lit ''document.process'')
                       \<lparr>ev_id = doc_id, ev_filename = uf_filename file\<rparr> w2 of
                  (Inl e, w3) \<Rightarrow> (Inl e, w3)
                | (Inr _, w3) \<Rightarrow>
                    (Inr (JObj [(lit ''id'', JStr doc_id),
                                (lit ''status'', JStr (lit ''queued''))]), w3))))"

section \<open>The Consumer: \<open>process_document\<close>\<close>

subsection \<open>Qdrant\<close>

text \<open>
  Qdrant keeps one point per id: a point written under an id that is already in the
  collection takes the place of the old one.
\<close>

definition upsert_point :: "point \<Rightarrow> point list \<Rightarrow> point list" where
  "upsert_point p ps = filter (\<lambda>q. pt_id q \<noteq> pt_id p) ps @ [p]"

text \<open>
  \<open>PUT /collections/documents/points\<close>. The call raises only when the request cannot be
  sent or answered; the response is dropped by the caller.
\<close>

definition qdrant_put_points :: "env \<Rightarrow> point list \<Rightarrow> world \<Rightarrow> (error + unit) \<times> world" where
  "qdrant_put_points E ps w =
     (case vi_put E of
        PutUnreachable \<Rightarrow> (Inl HttpTransportError, w)
      | PutRejected \<Rightarrow> (Inr (), w)
      | PutApplied \<Rightarrow> (Inr (), w\<lparr>points := fold upsert_point ps (points w)\<rparr>))"

definition process_blob_key :: "pystr \<Rightarrow> pystr" where
  "process_blob_key doc_id = lit ''documents/'' @ doc_id @ lit ''.pdf''"

text \<open>The body of the \<open>try\<close> block (\<open>processor.py\<close>, lines 38-78).\<close>

definition process_body :: "lib \<Rightarrow> env \<Rightarrow> event \<Rightarrow> world \<Rightarrow> (error + unit) \<times> world" where
  "process_body L E ev w =
     (let doc_id = ev_id ev in
      case s3_get_object E (process_blob_key doc_id) w of
        Inl e \<Rightarrow> (Inl e, w)
      | Inr content \<Rightarrow>
          (let text = take 500 (decode_utf8_ignore L content);
               embedding = model_encode L text
           in case qdrant_put_points E
                     [\<lparr>pt_id = doc_id, pt_vector = embedding,
                       pt_payload = \<lparr>pl_text = text, pl_filename = ev_filename ev,
                                     pl_doc_id = doc_id\<rparr>\<rparr>] w of
                (Inl e, w1) \<Rightarrow> (Inl e, w1)
              | (Inr _, w1) \<Rightarrow>
                  (case update_processed E (take 200 text) doc_id w1 of
                     (Inl e, w2) \<Rightarrow> (Inl e, w2)
                   | (Inr _, w2) \<Rightarrow>
                       (Inr (), w2\<lparr>stdout := stdout w2 @
                                  [lit ''Processed document '' @ doc_id]\<rparr>))))"

text \<open>
  The callback: print, connect, run the \<open>try\<close> block, and close the connection in
  \<open>finally\<close> whatever happened. An exception leaves the callback; no reply is sent for
  the message on any path.
\<close>

definition process_document :: "lib \<Rightarrow> env \<Rightarrow> event \<Rightarrow> world \<Rightarrow> (error + unit) \<times> world" where
  "process_document L E ev w =
     (let doc_id = ev_id ev;
          w0 = w\<lparr>stdout := stdout w @ [lit ''Processing document '' @ doc_id]\<rparr>
      in if \<not> pg_connect_ok E then (Inl PgConnectionError, w0)
         else case process_body L E ev (w0\<lparr>pg_open := Suc (pg_open w0)\<rparr>) of
                (r, w1) \<Rightarrow> (r, w1\<lparr>pg_open := pg_open w1 - 1\<rparr>))"

section \<open>The Query Service: \<open>search\<close>\<close>

subsection \<open>Redis\<close>

definition redis_get :: "env \<Rightarrow> pystr \<Rightarrow> world \<Rightarrow> error + pystr option" where
  "redis_get E key w =
     (if \<not> redis_get_ok E then Inl RedisConnectionError
      else case cache w key of
             None \<Rightarrow> Inr None
           | Some (v, expiry) \<Rightarrow> if clock E < expiry then Inr (Some v) else Inr None)"

definition redis_setex :: "env \<Rightarrow> pystr \<Rightarrow> nat \<Rightarrow> pystr \<Rightarrow> world \<Rightarrow> (error + unit) \<times> world" where
  "redis_setex E key ttl v w =
     (if \<not> redis_setex_ok E then (Inl RedisConnectionError, w)
      else (Inr (), w\<lparr>cache := (cache w)(key \<mapsto> (v, clock E + ttl))\<rparr>))"

text \<open>
  \<open>POST /collections/documents/points/search\<close>: every request sent is recorded in
  \<open>vi_log\<close>.
\<close>

definition qdrant_search :: "env \<Rightarrow> search_request \<Rightarrow> world \<Rightarrow> search_reply \<times> world" where
  "qdrant_search E req w = (vi_search E req, w\<lparr>vi_log := vi_log w @ [req]\<rparr>)"

definition search_cache_key :: "pystr \<Rightarrow> pystr" where
  "search_cache_key query = lit ''search:'' @ query"

text \<open>\<open>{"vector": [0.1] * 384, "limit": 3, "with_payload": True}\<close>\<close>

definition dummy_request :: search_request where
  "dummy_request = \<lparr>sr_vector = replicate 384 (1 / 10), sr_limit = 3, sr_with_payload = True\<rparr>"

text \<open>\<open>d.get(key, default)\<close> on a value that must be a dict.\<close>

definition dict_get :: "json \<Rightarrow> pystr \<Rightarrow> json \<Rightarrow> error + json" where
  "dict_get d key dflt =
     (case d of
        JObj kvs \<Rightarrow> (case map_of kvs key of None \<Rightarrow> Inr dflt | Some v \<Rightarrow> Inr v)
      | _ \<Rightarrow> Inl AttributeError)"

text \<open>The part of \<open>search\<close> after the cache check (\<open>main.py\<close>, lines 110-132).\<close>

definition search_miss :: "lib \<Rightarrow> env \<Rightarrow> pystr \<Rightarrow> world \<Rightarrow> (error + json) \<times> world" where
  "search_miss L E query w =
     (case qdrant_search E dummy_request w of
        (SearchUnreachable, w1) \<Rightarrow> (Inl HttpTransportError, w1)
      | (NonJsonBody, w1) \<Rightarrow> (Inl JSONDecodeError, w1)
      | (JsonBody body, w1) \<Rightarrow>
          (case dict_get body (lit ''result'') (JArr []) of
             Inl e \<Rightarrow> (Inl e, w1)
           | Inr hits \<Rightarrow>
               (let result = JObj [(lit ''query'', JStr query), (lit ''results'', hits)]
                in case redis_setex E (search_cache_key query) 300 (json_dumps L result) w1 of
                     (Inl e, w2) \<Rightarrow> (Inl e, w2)
                   | (Inr _, w2) \<Rightarrow> (Inr result, w2))))"

text \<open>
  \<open>if cached:\<close> is true for a string that is not empty; \<open>None\<close> and the empty string
  both go on to Qdrant.
\<close>

definition search :: "lib \<Rightarrow> env \<Rightarrow> pystr \<Rightarrow> world \<Rightarrow> (error + json) \<times> world" where
  "search L E query w =
     (case redis_get E (search_cache_key query) w of
        Inl e \<Rightarrow> (Inl e, w)
      | Inr None \<Rightarrow> search_miss L E query w
      | Inr (Some cached) \<Rightarrow>
          (if cached \<noteq> [] then
             (case json_loads L cached of
                None \<Rightarrow> (Inl JSONDecodeError, w)
              | Some r \<Rightarrow> (Inr r, w))
           else search_miss L E query w))"

text \<open>
  The cache check of \<open>search\<close> goes on to Qdrant: Redis answered, and the key is absent,
  expired, or holds the empty string.
\<close>

definition cache_miss :: "env \<Rightarrow> pystr \<Rightarrow> world \<Rightarrow> bool" where
  "cache_miss E q w \<longleftrightarrow>
     redis_get E (search_cache_key q) w = Inr None
   \<or> redis_get E (search_cache_key q) w = Inr (Some [])"

section \<open>\<open>status\<close>\<close>

text \<open>The four probes that run inside \<open>try\<close>.\<close>

definition pg_probe :: "env \<Rightarrow> error + unit" where
  "pg_probe E =
     (if \<not> pg_connect_ok E then Inl PgConnectionError
      else if \<not> pg_query_ok E then Inl PgQueryError
      else Inr ())"

definition qdrant_probe :: "env \<Rightarrow> error + unit" where
  "qdrant_probe E = (if vi_health_ok E then Inr () else Inl HttpTransportError)"

definition s3_probe :: "env \<Rightarrow> error + unit" where
  "s3_probe E = (if s3_list_ok E then Inr () else Inl S3ClientError)"

definition redis_probe :: "env \<Rightarrow> error + unit" where
  "redis_probe E = (if redis_ping_ok E then Inr () else Inl RedisConnectionError)"

text \<open>\<open>try: probe; 'healthy'  except: 'unhealthy'\<close>\<close>

definition try_probe :: "error + unit \<Rightarrow> pystr" where
  "try_probe r = (case r of Inr _ \<Rightarrow> lit ''healthy'' | Inl _ \<Rightarrow> lit ''unhealthy'')"

definition status :: "env \<Rightarrow> error + json" where
  "status E =
     (let services0 = [(lit ''nats'',
            JStr (if nats_connected E then lit ''connected'' else lit ''disconnected''))];
          services1 = services0 @ [(lit ''postgresql'', JStr (try_probe (pg_probe E)))];
          services2 = services1 @ [(lit ''qdrant'', JStr (try_probe (qdrant_probe E)))];
          services3 = services2 @ [(lit ''storage'', JStr (try_probe (s3_probe E)))];
          services4 = services3 @ [(lit ''cache'', JStr (try_probe (redis_probe E)))]
      in Inr (JObj [(lit ''status'', JStr (lit ''operational'')),
                    (lit ''services'', JObj services4)]))"

section \<open>Runs of the system\<close>





definition is_pending :: "world \<Rightarrow> pystr \<Rightarrow> bool" where
  "is_pending w doc_id = (case rows w doc_id of None \<Rightarrow> False | Some r \<Rightarrow> \<not> row_processed r)"


section \<open>Sample inputs\<close>

text \<open>
  Concrete values on which the theorems below are instantiated: an empty system, an
  environment in which every service works, and a small stand-in for the libraries.
\<close>

definition empty_world :: world where
  "empty_world = \<lparr>blobs = Map.empty, rows = Map.empty, points = [], cache = Map.empty,
     published = [], msg_replies = [], vi_log = [], stdout = [], pg_open = 0\<rparr>"

definition sample_hits :: json where
  "sample_hits = JArr [JObj [(lit ''id'', JStr (lit ''d1'')), (lit ''score'', JNum 1)]]"

definition healthy_env :: env where
  "healthy_env = \<lparr>s3_put_ok = True, s3_get_ok = True, s3_list_ok = True,
     pg_connect_ok = True, pg_query_ok = True, nats_connected = True,
     nats_publish_ok = True, redis_get_ok = True, redis_setex_ok = True,
     redis_ping_ok = True, vi_put = PutApplied,
     vi_search = (\<lambda>_. JsonBody (JObj [(lit ''result'', sample_hits)])),
     vi_health_ok = True, uuid4 = lit ''d1'', clock = 1000\<rparr>"

definition sample_file :: upload_file where
  "sample_file = \<lparr>uf_filename = lit ''a.pdf'', uf_body = [104, 105]\<rparr>"

definition sample_event :: event where
  "sample_event = \<lparr>ev_id = lit ''d1'', ev_filename = lit ''a.pdf''\<rparr>"

definition sample_result :: json where
  "sample_result = JObj [(lit ''query'', JStr (lit ''q'')), (lit ''results'', sample_hits)]"

definition empty_result :: json where
  "empty_result = JObj [(lit ''query'', JStr (lit ''q'')), (lit ''results'', JArr [])]"

text \<open>
  The stand-in serialiser tells the two sample results apart and reads back what it
  wrote for them.
\<close>

definition sample_lib :: lib where
  "sample_lib = \<lparr>decode_utf8_ignore = map unat,
     model_encode = (\<lambda>t. [of_nat (length t)]),
     json_dumps = (\<lambda>j. if j = empty_result then lit ''E'' else lit ''R''),
     json_loads = (\<lambda>s. if s = lit ''E'' then Some empty_result
                        else if s = lit ''R'' then Some sample_result else None)\<rparr>"

text \<open>The system after the sample file was uploaded into the empty system.\<close>

definition uploaded_world :: world where
  "uploaded_world = \<lparr>blobs = [lit ''documents/d1.pdf'' \<mapsto> [104, 105]],
     rows = [lit ''d1'' \<mapsto> \<lparr>row_filename = lit ''a.pdf'', row_upload_date = 1000,
                               row_processed = False, row_text_preview = None\<rparr>],
     points = [], cache = Map.empty,
     published = [(lit ''document.process'', sample_event)],
     msg_replies = [], vi_log = [], stdout = [], pg_open = 0\<rparr>"


text \<open>
  The empty system after one search for \<open>q\<close> at time 1000, and the same after a search
  that Qdrant answered with an error body.
\<close>

definition searched_world :: world where
  "searched_world = empty_world\<lparr>vi_log := [dummy_request],
     cache := [lit ''search:q'' \<mapsto> (lit ''R'', 1300)]\<rparr>"

definition error_env :: env where
  "error_env = healthy_env\<lparr>vi_search :=
     (\<lambda>_. JsonBody (JObj [(lit ''status'', JObj [(lit ''error'', JStr (lit ''Not found''))])]))\<rparr>"

definition searched_empty_world :: world where
  "searched_empty_world = empty_world\<lparr>vi_log := [dummy_request],
     cache := [lit ''search:q'' \<mapsto> (lit ''E'', 1300)]\<rparr>"

section \<open>The Producer publishes last\<close>

lemmas upload_defs =
  upload_document_def s3_put_object_def insert_document_def nats_publish_def

text \<open>
  Claim C2. In every call of \<open>upload_document\<close>: if an event was published, it is the
  event of this document, the blob is in the bucket under the document's key and the new
  row is there, pending; if the blob write fails, the call fails and bucket, table and
  queue are as before; if the blob write succeeds and the insert fails, the call fails
  with the insert's error, no row is created and nothing is published, while the blob
  stays in the bucket.
\<close>

theorem upload_publishes_last:
  assumes "upload_document E file w = (r, w')"
  shows "(published w' \<noteq> published w \<longrightarrow>
            published w' = published w @ [(lit ''document.process'',
                \<lparr>ev_id = uuid4 E, ev_filename = uf_filename file\<rparr>)]
          \<and> blobs w' (upload_blob_key (uuid4 E)) = Some (uf_body file)
          \<and> rows w (uuid4 E) = None
          \<and> is_pending w' (uuid4 E))
       \<and> (\<not> s3_put_ok E \<longrightarrow>
            r = Inl S3ClientError \<and> blobs w' = blobs w \<and> rows w' = rows w
          \<and> published w' = published w)
       \<and> (\<forall>e. s3_put_ok E
            \<and> fst (insert_document E (uuid4 E) (uf_filename file)
                     (snd (s3_put_object E (upload_blob_key (uuid4 E)) (uf_body file) w))) = Inl e \<longrightarrow>
            r = Inl e
          \<and> blobs w' = (blobs w)(upload_blob_key (uuid4 E) \<mapsto> uf_body file)
          \<and> rows w' = rows w \<and> published w' = published w)"
  using assms
  by (auto simp: upload_defs is_pending_def Let_def split: if_splits sum.splits prod.splits)

theorem upload_publishes_last_witness:
  "published (snd (upload_document healthy_env sample_file empty_world)) =
     [(lit ''document.process'', sample_event)]
   \<and> blobs (snd (upload_document healthy_env sample_file empty_world))
        (upload_blob_key (lit ''d1'')) = Some [104, 105]
   \<and> is_pending (snd (upload_document healthy_env sample_file empty_world)) (lit ''d1'')"
  using upload_publishes_last [of healthy_env sample_file empty_world
      "fst (upload_document healthy_env sample_file empty_world)"
      "snd (upload_document healthy_env sample_file empty_world)"]
  by (simp add: upload_defs healthy_env_def sample_file_def empty_world_def sample_event_def
      varchar255_def lit_def upload_blob_key_def Let_def is_pending_def)


section \<open>Producer and Consumer agree on the blob key\<close>



section \<open>The Consumer\<close>

lemmas process_defs =
  process_document_def process_body_def s3_get_object_def qdrant_put_points_def
  update_processed_def

lemmas sample_defs =
  healthy_env_def sample_file_def sample_event_def sample_lib_def empty_world_def
  uploaded_world_def sample_hits_def sample_result_def empty_result_def






subsection \<open>Redelivery\<close>




subsection \<open>Failures\<close>

text \<open>
  Claim C5, as the code has it. Whatever happens to a delivered event,
  \<open>process_document\<close> sends no reply for the message (no ack, no nak), publishes
  nothing (no requeue) and leaves no connection open. A failure at any step leaves
  \<open>process_document\<close> as an exception, and \<open>process_document\<close> itself prints nothing
  after its opening line: a missing blob raises \<open>NoSuchKey\<close>, an unreachable Vector Index
  a transport error, a failed update of the row a query error. Permanent and transient
  failures are treated alike. What the caller of the callback does with the exception is
  not part of \<open>process_document\<close> and is left open.
\<close>

theorem process_failure_propagates:
  assumes "process_document L E ev w = (r, w')"
  shows "msg_replies w' = msg_replies w \<and> published w' = published w \<and> pg_open w' = pg_open w
     \<and> (\<forall>e. r = Inl e \<longrightarrow> stdout w' = stdout w @ [lit ''Processing document '' @ ev_id ev])
     \<and> (pg_connect_ok E \<and> s3_get_ok E \<and> blobs w (process_blob_key (ev_id ev)) = None \<longrightarrow>
          r = Inl NoSuchKey)
     \<and> (pg_connect_ok E \<and> s3_get_ok E \<and> blobs w (process_blob_key (ev_id ev)) \<noteq> None
          \<and> vi_put E = PutUnreachable \<longrightarrow> r = Inl HttpTransportError)
     \<and> (pg_connect_ok E \<and> s3_get_ok E \<and> blobs w (process_blob_key (ev_id ev)) \<noteq> None
          \<and> vi_put E \<noteq> PutUnreachable \<and> \<not> pg_query_ok E \<longrightarrow> r = Inl PgQueryError)"
  using assms
  by (cases "pg_connect_ok E"; cases "s3_get_ok E"; cases "blobs w (process_blob_key (ev_id ev))";
      cases "vi_put E"; cases "pg_query_ok E"; cases "rows w (ev_id ev)")
     (auto simp: process_defs Let_def)

theorem process_failure_propagates_witness:
  "fst (process_document sample_lib (healthy_env\<lparr>pg_query_ok := False\<rparr>) sample_event
         uploaded_world) = Inl PgQueryError
   \<and> msg_replies (snd (process_document sample_lib (healthy_env\<lparr>pg_query_ok := False\<rparr>)
         sample_event uploaded_world)) = []
   \<and> pg_open (snd (process_document sample_lib (healthy_env\<lparr>pg_query_ok := False\<rparr>)
         sample_event uploaded_world)) = 0"
  using process_failure_propagates [of sample_lib "healthy_env\<lparr>pg_query_ok := False\<rparr>"
      sample_event uploaded_world
      "fst (process_document sample_lib (healthy_env\<lparr>pg_query_ok := False\<rparr>) sample_event
         uploaded_world)"
      "snd (process_document sample_lib (healthy_env\<lparr>pg_query_ok := False\<rparr>) sample_event
         uploaded_world)"]
  by (simp add: sample_defs process_blob_key_def lit_def)

text \<open>
  As the specification words it, the claim fails. With the Vector Index unreachable (a
  transient fault in step 4) the delivery of the sample event ends in a transport error,
  and no nak was sent nor the event published again. With the blob missing (a permanent
  failure in step 1) the delivery ends in \<open>NoSuchKey\<close> and no ack or other reply was
  sent for the message.
\<close>

theorem transient_fault_not_redelivered:
  "process_document sample_lib (healthy_env\<lparr>vi_put := PutUnreachable\<rparr>) sample_event
       uploaded_world =
     (Inl HttpTransportError, uploaded_world\<lparr>stdout := [lit ''Processing document d1'']\<rparr>)
   \<and> msg_replies (uploaded_world\<lparr>stdout := [lit ''Processing document d1'']\<rparr>) = []
   \<and> published (uploaded_world\<lparr>stdout := [lit ''Processing document d1'']\<rparr>) =
       published uploaded_world
   \<and> process_document sample_lib healthy_env sample_event empty_world =
     (Inl NoSuchKey, empty_world\<lparr>stdout := [lit ''Processing document d1'']\<rparr>)
   \<and> msg_replies (empty_world\<lparr>stdout := [lit ''Processing document d1'']\<rparr>) = []"
  by (simp add: process_defs sample_defs process_blob_key_def lit_def Let_def)

section \<open>The processing state\<close>

lemmas search_defs =
  search_def search_miss_def redis_get_def redis_setex_def qdrant_search_def dict_get_def


lemma search_points: "points (snd (search L E q w)) = points w"
  by (auto simp: search_defs Let_def
      split: sum.splits prod.splits option.splits search_reply.splits json.splits if_splits)











section \<open>The Query Service\<close>

lemma search_hit:
  assumes "redis_get_ok E" and "cache w (search_cache_key q) = Some (v, expiry)"
    and "clock E < expiry" and "v \<noteq> []" and "json_loads L v = Some r"
  shows "search L E q w = (Inr r, w)"
  using assms by (simp add: search_def redis_get_def)

lemma search_on_miss:
  assumes "cache_miss E q w"
  shows "search L E q w = search_miss L E q w"
  using assms by (auto simp: search_def cache_miss_def)

lemma search_miss_ok:
  assumes "vi_search E dummy_request = JsonBody (JObj kvs)" and "redis_setex_ok E"
  shows "search_miss L E q w =
     (let result = JObj [(lit ''query'', JStr q),
            (lit ''results'', case map_of kvs (lit ''result'') of None \<Rightarrow> JArr [] | Some hits \<Rightarrow> hits)]
      in (Inr result,
          w\<lparr>vi_log := vi_log w @ [dummy_request],
            cache := (cache w)(search_cache_key q \<mapsto> (json_dumps L result, clock E + 300))\<rparr>))"
  using assms
  by (simp add: search_miss_def qdrant_search_def dict_get_def redis_setex_def Let_def
      split: option.splits)

lemma search_Inr_cached:
  assumes "search L E q w = (Inr r, w')"
  shows "(\<exists>v expiry. cache w (search_cache_key q) = Some (v, expiry) \<and> clock E < expiry
            \<and> v \<noteq> [] \<and> json_loads L v = Some r \<and> w' = w)
       \<or> cache w' (search_cache_key q) = Some (json_dumps L r, clock E + 300)"
  using assms
  by (auto simp: search_defs Let_def
      split: sum.splits prod.splits option.splits search_reply.splits json.splits if_splits)

lemma sample_search:
  "search sample_lib healthy_env (lit ''q'') empty_world = (Inr sample_result, searched_world)"
  by (simp add: search_defs sample_defs searched_world_def dummy_request_def
      search_cache_key_def lit_def Let_def)

subsection \<open>Cache hit\<close>

text \<open>
  Claim C6. When Redis answers the get with a live, non-empty value for the key of \<open>Q\<close>,
  \<open>search\<close> returns what \<open>json.loads\<close> reads from it and leaves the whole system as it
  was: no request goes to the Vector Index and the cache is not written. Consequently,
  after a search for \<open>Q\<close> that returned a result, a second search for \<open>Q\<close> while the
  entry for \<open>Q\<close> is live returns the very same result, given that the serialiser reads
  back what it wrote for that result.
\<close>

theorem cache_hit_returns_cached:
  "(redis_get_ok E \<and> cache w (search_cache_key q) = Some (v, expiry) \<and> clock E < expiry
      \<and> v \<noteq> [] \<and> json_loads L v = Some r \<longrightarrow>
      search L E q w = (Inr r, w))
   \<and> (search L E1 q w1 = (Inr r1, w2) \<and> redis_get_ok E2
      \<and> (\<exists>v2 expiry2. cache w2 (search_cache_key q) = Some (v2, expiry2) \<and> clock E2 < expiry2)
      \<and> json_loads L (json_dumps L r1) = Some r1 \<and> json_dumps L r1 \<noteq> [] \<longrightarrow>
      search L E2 q w2 = (Inr r1, w2))"
proof (intro conjI impI)
  assume "redis_get_ok E \<and> cache w (search_cache_key q) = Some (v, expiry) \<and> clock E < expiry
      \<and> v \<noteq> [] \<and> json_loads L v = Some r"
  then show "search L E q w = (Inr r, w)" by (simp add: search_hit)
next
  assume h: "search L E1 q w1 = (Inr r1, w2) \<and> redis_get_ok E2
      \<and> (\<exists>v2 expiry2. cache w2 (search_cache_key q) = Some (v2, expiry2) \<and> clock E2 < expiry2)
      \<and> json_loads L (json_dumps L r1) = Some r1 \<and> json_dumps L r1 \<noteq> []"
  then obtain v2 expiry2 where
    live: "cache w2 (search_cache_key q) = Some (v2, expiry2)" "clock E2 < expiry2" by blast
  from h search_Inr_cached [of L E1 q w1 r1 w2]
  have "v2 \<noteq> [] \<and> json_loads L v2 = Some r1" using live by auto
  with h live show "search L E2 q w2 = (Inr r1, w2)" by (simp add: search_hit)
qed

theorem cache_hit_returns_cached_witness:
  "search sample_lib (healthy_env\<lparr>clock := 1200\<rparr>) (lit ''q'') searched_world =
     (Inr sample_result, searched_world)"
  using cache_hit_returns_cached [where E = "healthy_env\<lparr>clock := 1200\<rparr>"
      and w = searched_world and q = "lit ''q''" and v = "lit ''R''" and expiry = 1300
      and L = sample_lib and r = sample_result and ?E1.0 = healthy_env
      and ?w1.0 = empty_world and ?r1.0 = sample_result and ?w2.0 = searched_world
      and ?E2.0 = "healthy_env\<lparr>clock := 1200\<rparr>"]
    sample_search
  by (simp add: sample_defs searched_world_def search_cache_key_def lit_def)

subsection \<open>Cache miss\<close>

text \<open>
  Claim C7. On a cache miss, with the Vector Index answering with a JSON object and the
  cache accepting the write, \<open>search\<close> sends the Vector Index exactly one request, which is
  the constant vector of 384 times 0.1 with limit 3 and payloads on, whatever \<open>Q\<close> is;
  builds the result from \<open>Q\<close> and the value of the field \<open>result\<close>; stores its
  serialisation under the key \<open>search:\<close> followed by \<open>Q\<close> verbatim, to expire 300 time
  units after now; and returns it. Different query strings have different keys.
\<close>

theorem cache_miss_computes_and_stores:
  assumes "cache_miss E q w"
    and "vi_search E dummy_request = JsonBody (JObj kvs)"
    and "redis_setex_ok E"
  shows "search L E q w =
     (Inr (JObj [(lit ''query'', JStr q),
                 (lit ''results'', case map_of kvs (lit ''result'') of
                                     None \<Rightarrow> JArr [] | Some hits \<Rightarrow> hits)]),
      w\<lparr>vi_log := vi_log w @
             [\<lparr>sr_vector = replicate 384 (1 / 10), sr_limit = 3, sr_with_payload = True\<rparr>],
        cache := (cache w)(lit ''search:'' @ q \<mapsto>
             (json_dumps L (JObj [(lit ''query'', JStr q),
                 (lit ''results'', case map_of kvs (lit ''result'') of
                                     None \<Rightarrow> JArr [] | Some hits \<Rightarrow> hits)]),
              clock E + 300))\<rparr>)
   \<and> (\<forall>q'. search_cache_key q' = search_cache_key q \<longrightarrow> q' = q)"
  using assms search_on_miss [of E q w L] search_miss_ok [of E kvs L q w]
  by (simp add: Let_def search_cache_key_def dummy_request_def)

theorem cache_miss_computes_and_stores_witness:
  "search sample_lib healthy_env (lit ''q'') empty_world =
     (Inr (JObj [(lit ''query'', JStr (lit ''q'')), (lit ''results'', sample_hits)]),
      empty_world\<lparr>vi_log :=
          [\<lparr>sr_vector = replicate 384 (1 / 10), sr_limit = 3, sr_with_payload = True\<rparr>],
        cache := [lit ''search:q'' \<mapsto> (lit ''R'', 1300)]\<rparr>)"
  using cache_miss_computes_and_stores [of healthy_env "lit ''q''" empty_world
      "[(lit ''result'', sample_hits)]" sample_lib]
  by (simp add: sample_defs cache_miss_def redis_get_def search_cache_key_def lit_def)

text \<open>
  Claim C9. On a cache miss, when the body of the Vector Index's response is a JSON object
  without the field \<open>result\<close>, \<open>search\<close> returns \<open>Q\<close> with an empty list of results
  and stores it under the key of \<open>Q\<close>, to expire 300 time units after now. A later search
  for \<open>Q\<close> before that time, with Redis answering, returns the stored empty result and
  changes nothing: the Vector Index is not asked again.
\<close>

theorem error_response_cached_empty:
  assumes "cache_miss E q w"
    and "vi_search E dummy_request = JsonBody (JObj kvs)"
    and "map_of kvs (lit ''result'') = None"
    and "redis_setex_ok E"
    and "search L E q w = (r, w')"
  shows "r = Inr (JObj [(lit ''query'', JStr q), (lit ''results'', JArr [])])
   \<and> cache w' (search_cache_key q) =
        Some (json_dumps L (JObj [(lit ''query'', JStr q), (lit ''results'', JArr [])]),
              clock E + 300)
   \<and> (redis_get_ok E2 \<and> clock E2 < clock E + 300
        \<and> json_dumps L (JObj [(lit ''query'', JStr q), (lit ''results'', JArr [])]) \<noteq> []
        \<and> json_loads L (json_dumps L (JObj [(lit ''query'', JStr q), (lit ''results'', JArr [])]))
            = Some (JObj [(lit ''query'', JStr q), (lit ''results'', JArr [])]) \<longrightarrow>
        search L E2 q w' =
          (Inr (JObj [(lit ''query'', JStr q), (lit ''results'', JArr [])]), w'))"
proof -
  let ?res = "JObj [(lit ''query'', JStr q), (lit ''results'', JArr [])]"
  from assms search_on_miss [of E q w L] search_miss_ok [of E kvs L q w]
  have r: "r = Inr ?res"
    and w': "w' = w\<lparr>vi_log := vi_log w @ [dummy_request],
            cache := (cache w)(search_cache_key q \<mapsto> (json_dumps L ?res, clock E + 300))\<rparr>"
    by (simp_all add: Let_def)
  from w' have c: "cache w' (search_cache_key q) = Some (json_dumps L ?res, clock E + 300)"
    by simp
  show ?thesis
    using r c search_hit [of E2 w' q "json_dumps L ?res" "clock E + 300" L ?res] by simp
qed

theorem error_response_cached_empty_witness:
  "search sample_lib error_env (lit ''q'') empty_world = (Inr empty_result, searched_empty_world)
   \<and> search sample_lib (error_env\<lparr>clock := 1299\<rparr>) (lit ''q'') searched_empty_world =
       (Inr empty_result, searched_empty_world)"
  using error_response_cached_empty [of error_env "lit ''q''" empty_world
      "[(lit ''status'', JObj [(lit ''error'', JStr (lit ''Not found''))])]" sample_lib
      "fst (search sample_lib error_env (lit ''q'') empty_world)"
      "snd (search sample_lib error_env (lit ''q'') empty_world)"
      "error_env\<lparr>clock := 1299\<rparr>"]
  by (simp add: search_defs sample_defs error_env_def searched_empty_world_def
      cache_miss_def dummy_request_def search_cache_key_def lit_def Let_def)

subsection \<open>Unreachable cache\<close>

text \<open>
  Claim C3, as the code has it. When Redis does not answer the get, \<open>search\<close> raises the
  connection error and no request goes to the Vector Index. When the get is a miss, the
  Vector Index answers and Redis does not accept the write, \<open>search\<close> raises the connection
  error after the request to the Vector Index, and the computed result is not returned.
\<close>

theorem cache_failure_is_fatal:
  "(\<not> redis_get_ok E \<longrightarrow> search L E q w = (Inl RedisConnectionError, w))
   \<and> (cache_miss E q w \<and> vi_search E dummy_request = JsonBody (JObj kvs)
        \<and> \<not> redis_setex_ok E \<longrightarrow>
        search L E q w = (Inl RedisConnectionError, w\<lparr>vi_log := vi_log w @ [dummy_request]\<rparr>))"
  by (auto simp: search_defs cache_miss_def Let_def split: option.splits if_splits)

theorem cache_failure_is_fatal_witness:
  "search sample_lib (healthy_env\<lparr>redis_get_ok := False\<rparr>) (lit ''q'') empty_world =
     (Inl RedisConnectionError, empty_world)
   \<and> search sample_lib (healthy_env\<lparr>redis_setex_ok := False\<rparr>) (lit ''q'') empty_world =
     (Inl RedisConnectionError, empty_world\<lparr>vi_log := [dummy_request]\<rparr>)"
  using cache_failure_is_fatal [of "healthy_env\<lparr>redis_get_ok := False\<rparr>" sample_lib
      "lit ''q''" empty_world "[(lit ''result'', sample_hits)]"]
    cache_failure_is_fatal [of "healthy_env\<lparr>redis_setex_ok := False\<rparr>" sample_lib
      "lit ''q''" empty_world "[(lit ''result'', sample_hits)]"]
  by (simp add: sample_defs cache_miss_def redis_get_def)

text \<open>
  As the specification words it, the claim fails: with the cache unreachable and a Vector
  Index that would answer the request with hits, the search for \<open>q\<close> in the empty system
  ends in the connection error.
\<close>

theorem unreachable_cache_raises:
  "search sample_lib (healthy_env\<lparr>redis_get_ok := False, redis_setex_ok := False\<rparr>)
       (lit ''q'') empty_world = (Inl RedisConnectionError, empty_world)
   \<and> vi_search healthy_env dummy_request = JsonBody (JObj [(lit ''result'', sample_hits)])"
  by (simp add: search_defs sample_defs)

section \<open>\<open>status\<close> reports each service by itself\<close>

lemmas status_defs =
  status_def try_probe_def pg_probe_def qdrant_probe_def s3_probe_def redis_probe_def

text \<open>
  Claim C8. \<open>status\<close> always returns, with one entry for each of \<open>nats\<close>,
  \<open>postgresql\<close>, \<open>qdrant\<close>, \<open>storage\<close> and \<open>cache\<close>. The entry of \<open>nats\<close> is
  \<open>connected\<close> or \<open>disconnected\<close>, each other entry is \<open>healthy\<close> or \<open>unhealthy\<close>,
  and each entry is decided by the probe of its own service alone: a probe that fails
  turns its own entry and no other.
\<close>

theorem status_probes_isolated:
  "status E =
     Inr (JObj [(lit ''status'', JStr (lit ''operational'')),
       (lit ''services'', JObj
         [(lit ''nats'',
             JStr (if nats_connected E then lit ''connected'' else lit ''disconnected'')),
          (lit ''postgresql'',
             JStr (if pg_connect_ok E \<and> pg_query_ok E then lit ''healthy'' else lit ''unhealthy'')),
          (lit ''qdrant'',
             JStr (if vi_health_ok E then lit ''healthy'' else lit ''unhealthy'')),
          (lit ''storage'',
             JStr (if s3_list_ok E then lit ''healthy'' else lit ''unhealthy'')),
          (lit ''cache'',
             JStr (if redis_ping_ok E then lit ''healthy'' else lit ''unhealthy''))])])"
  by (simp add: status_defs Let_def)

theorem status_probes_isolated_witness:
  "status (healthy_env\<lparr>pg_query_ok := False, redis_ping_ok := False\<rparr>) =
     Inr (JObj [(lit ''status'', JStr (lit ''operational'')),
       (lit ''services'', JObj
         [(lit ''nats'', JStr (lit ''connected'')),
          (lit ''postgresql'', JStr (lit ''unhealthy'')),
          (lit ''qdrant'', JStr (lit ''healthy'')),
          (lit ''storage'', JStr (lit ''healthy'')),
          (lit ''cache'', JStr (lit ''unhealthy''))])])"
  using status_probes_isolated [of "healthy_env\<lparr>pg_query_ok := False, redis_ping_ok := False\<rparr>"]
  by (simp add: healthy_env_def)

end
